theory Spec2Isabelle
  imports Complex_Main
begin

section \<open>Demo mode state management (lib/demo-mode)\<close>

text \<open>
  The module reads and writes two globals of the host: \<open>window\<close> (its location and
  history) and \<open>localStorage\<close>. Either may be undeclared outside a browser, so both are
  optional in the model. Touching an undeclared global throws a ReferenceError, which is
  the one error the module can raise; \<open>typeof window\<close> never throws.

  \<open>window.location.search\<close> is held in the parsed form that \<open>new URLSearchParams\<close>
  presents: the list of name/value pairs in their order of appearance. Serialising the
  pairs into the new URL and parsing them again gives the same list, so
  \<open>history.replaceState\<close> stores the list it is given. The new URL carries no fragment,
  so \<open>replaceState\<close> empties the hash.
\<close>

datatype error = ReferenceError

type_synonym URLSearchParams = "(string \<times> string) list"

record location =
  pathname :: string
  search :: URLSearchParams
  hash :: string

record host =
  window :: "location option"
  localStorage :: "(string \<rightharpoonup> string) option"

definition DEMO_MODE_KEY :: string where
  "DEMO_MODE_KEY = ''brewos-demo-mode''"

text \<open>\<open>params.get(name)\<close>: the value of the first pair with that name, or null.\<close>

fun URLSearchParams_get :: "URLSearchParams \<Rightarrow> string \<Rightarrow> string option" where
  "URLSearchParams_get [] name = None"
| "URLSearchParams_get ((k, v) # ps) name =
     (if k = name then Some v else URLSearchParams_get ps name)"

text \<open>\<open>params.delete(name)\<close>: drops every pair with that name.\<close>

fun URLSearchParams_delete :: "URLSearchParams \<Rightarrow> string \<Rightarrow> URLSearchParams" where
  "URLSearchParams_delete [] name = []"
| "URLSearchParams_delete ((k, v) # ps) name =
     (if k = name then URLSearchParams_delete ps name
      else (k, v) # URLSearchParams_delete ps name)"

text \<open>
  \<open>window.history.replaceState({}, "", newUrl)\<close>, where \<open>newUrl\<close> is the pathname followed
  by \<open>?\<close> and the serialised parameters when there are any, and the bare pathname
  otherwise.
\<close>

definition replaceState :: "location \<Rightarrow> URLSearchParams \<Rightarrow> location" where
  "replaceState loc params = \<lparr>pathname = pathname loc, search = params, hash = ''''\<rparr>"

definition enableDemoMode :: "host \<Rightarrow> error + host" where
  "enableDemoMode h =
     (case localStorage h of
        None \<Rightarrow> Inl ReferenceError
      | Some st \<Rightarrow> Inr (h\<lparr>localStorage := Some (st(DEMO_MODE_KEY \<mapsto> ''true''))\<rparr>))"

definition disableDemoMode :: "host \<Rightarrow> error + host" where
  "disableDemoMode h =
     (case localStorage h of
        None \<Rightarrow> Inl ReferenceError
      | Some st \<Rightarrow> Inr (h\<lparr>localStorage := Some (st(DEMO_MODE_KEY := None))\<rparr>))"

text \<open>
  The tail of \<open>isDemoMode\<close>: \<open>localStorage.getItem(DEMO_MODE_KEY) === "true"\<close>.
\<close>

definition checkLocalStorage :: "host \<Rightarrow> error + (bool \<times> host)" where
  "checkLocalStorage h =
     (case localStorage h of
        None \<Rightarrow> Inl ReferenceError
      | Some st \<Rightarrow> Inr (st DEMO_MODE_KEY = Some ''true'', h))"

definition isDemoMode :: "host \<Rightarrow> error + (bool \<times> host)" where
  "isDemoMode h =
     (case window h of
        None \<Rightarrow> checkLocalStorage h
      | Some loc \<Rightarrow>
          (let params = search loc in
           if URLSearchParams_get params ''exitDemo'' = Some ''true'' then
             (case disableDemoMode h of
                Inl e \<Rightarrow> Inl e
              | Inr h1 \<Rightarrow>
                  Inr (False,
                       h1\<lparr>window :=
                            Some (replaceState loc (URLSearchParams_delete params ''exitDemo''))\<rparr>))
           else if URLSearchParams_get params ''demo'' = Some ''true'' then
             (case enableDemoMode h of
                Inl e \<Rightarrow> Inl e
              | Inr h1 \<Rightarrow> Inr (True, h1))
           else checkLocalStorage h))"

text \<open>The \<open>console.log\<close> of the enter branch leaves the modelled state alone.\<close>

definition initDemoModeFromUrl :: "host \<Rightarrow> error + host" where
  "initDemoModeFromUrl h =
     (case window h of
        None \<Rightarrow> Inr h
      | Some loc \<Rightarrow>
          (let params = search loc in
           if URLSearchParams_get params ''exitDemo'' = Some ''true'' then
             (case disableDemoMode h of
                Inl e \<Rightarrow> Inl e
              | Inr h1 \<Rightarrow>
                  Inr (h1\<lparr>window :=
                            Some (replaceState loc (URLSearchParams_delete params ''exitDemo''))\<rparr>))
           else if URLSearchParams_get params ''demo'' = Some ''true'' then
             enableDemoMode h
           else Inr h))"

text \<open>What the store holds under the demo key; nothing when there is no store.\<close>

definition durableFlag :: "host \<Rightarrow> string option" where
  "durableFlag h = (case localStorage h of None \<Rightarrow> None | Some st \<Rightarrow> st DEMO_MODE_KEY)"

subsection \<open>Demo logs\<close>

text \<open>
  \<open>getDemoLogs\<close> reads the clock once (\<open>Date.now()\<close>, milliseconds) and renders each
  instant with \<open>Date.prototype.toISOString\<close>, a function of the host that is taken as a
  parameter. The degree sign of three messages is written as its two UTF-8 bytes.
\<close>

record LogEntry =
  id' :: int
  time :: string
  level :: string
  message :: string
  source :: string

definition degC :: string where
  "degC = [CHR 0xC2, CHR 0xB0] @ ''C''"

definition getDemoLogs :: "(int \<Rightarrow> string) \<Rightarrow> int \<Rightarrow> LogEntry list" where
  "getDemoLogs toISOString now =
     (let oneMinute = 60 * 1000 in
      [ \<lparr>id' = now - 5 * oneMinute, time = toISOString (now - 5 * oneMinute),
          level = ''info'', message = ''Machine powered on'', source = ''esp32''\<rparr>,
        \<lparr>id' = now - 4 * oneMinute, time = toISOString (now - 4 * oneMinute),
          level = ''info'',
          message = ''WiFi connected to 'HomeNetwork' (192.168.1.100)'',
          source = ''esp32''\<rparr>,
        \<lparr>id' = now - 3 * oneMinute - 30 * 1000,
          time = toISOString (now - 3 * oneMinute - 30 * 1000),
          level = ''info'', message = ''Pico controller connected'', source = ''esp32''\<rparr>,
        \<lparr>id' = now - 3 * oneMinute, time = toISOString (now - 3 * oneMinute),
          level = ''info'', message = ''Heating started - target: 93.0'' @ degC,
          source = ''pico''\<rparr>,
        \<lparr>id' = now - 2 * oneMinute - 30 * 1000,
          time = toISOString (now - 2 * oneMinute - 30 * 1000),
          level = ''info'', message = ''Boiler temperature: 85.2'' @ degC,
          source = ''pico''\<rparr>,
        \<lparr>id' = now - 2 * oneMinute, time = toISOString (now - 2 * oneMinute),
          level = ''info'', message = ''Boiler temperature: 90.1'' @ degC,
          source = ''pico''\<rparr>,
        \<lparr>id' = now - 1 * oneMinute - 30 * 1000,
          time = toISOString (now - 1 * oneMinute - 30 * 1000),
          level = ''info'', message = ''Target temperature reached: 93.0'' @ degC,
          source = ''pico''\<rparr>,
        \<lparr>id' = now - 1 * oneMinute, time = toISOString (now - 1 * oneMinute),
          level = ''info'', message = ''Brewing started'', source = ''pico''\<rparr>,
        \<lparr>id' = now - 30 * 1000, time = toISOString (now - 30 * 1000),
          level = ''info'', message = ''Brewing stopped - shot time: 28s'',
          source = ''pico''\<rparr>,
        \<lparr>id' = now - 10 * 1000, time = toISOString (now - 10 * 1000),
          level = ''info'', message = ''System idle - maintaining temperature'',
          source = ''pico''\<rparr> ])"

section \<open>Demo statistics generator (lib/demo-stats)\<close>

text \<open>
  JavaScript numbers are modelled by exact reals: \<open>Math.floor\<close> is the floor,
  \<open>Math.ceil\<close> the ceiling and \<open>Math.round\<close> rounds half up. Numbers that the code
  keeps integral are integers.

  \<open>Math.random()\<close> is the only source of randomness. A run of the program sees a sequence
  \<open>rnd 0, rnd 1, ...\<close> of draws; every generator takes the sequence and the number \<open>k\<close>
  of draws made so far, and returns its result with the new count. The contract of
  \<open>Math.random\<close>, a value in \<open>[0, 1)\<close>, is the predicate \<open>unit_draws\<close>.

  The module constant \<open>now\<close> (epoch seconds, read once when the module loads) is a
  parameter. The local-time getters of \<open>Date\<close> depend on the time zone of the host:
  \<open>tz ms\<close> is the offset of local time from UTC, in milliseconds, at the instant \<open>ms\<close>.
\<close>

type_synonym draws = "nat \<Rightarrow> real"

type_synonym timezone = "int \<Rightarrow> int"

definition unit_draws :: "draws \<Rightarrow> bool" where
  "unit_draws rnd = (\<forall>k. 0 \<le> rnd k \<and> rnd k < 1)"

definition Math_round :: "real \<Rightarrow> int" where
  "Math_round x = \<lfloor>x + 1 / 2\<rfloor>"

text \<open>The first of January 1970 was a Thursday, day 4 of the week that starts on Sunday.\<close>

definition Date_getDay :: "timezone \<Rightarrow> int \<Rightarrow> int" where
  "Date_getDay tz ms = ((ms + tz ms) div 86400000 + 4) mod 7"

definition Date_getHours :: "timezone \<Rightarrow> int \<Rightarrow> int" where
  "Date_getHours tz ms = ((ms + tz ms) div 3600000) mod 24"

definition Date_getMinutes :: "timezone \<Rightarrow> int \<Rightarrow> int" where
  "Date_getMinutes tz ms = ((ms + tz ms) div 60000) mod 60"

definition day :: int where
  "day = 86400"

definition hour :: int where
  "hour = 3600"

subsection \<open>Brew history\<close>

record BrewRecord =
  timestamp :: real
  durationMs :: int
  yieldWeight :: real
  doseWeight :: real
  peakPressure :: real
  avgTemperature :: real
  avgFlowRate :: real
  rating :: int
  ratio :: real

definition brewTimes :: "real list" where
  "brewTimes = [6.5, 7, 7.5, 8, 8.5, 9, 12, 12.5, 13, 14, 14.5, 15, 15.5, 16,
                17, 17.5, 18, 18.5, 19]"

text \<open>
  The body of the inner loop: one brew of the day \<open>daysAgo\<close>. The index into
  \<open>brewTimes\<close> is within the list for every draw that \<open>Math.random\<close> can return
  (\<open>brewTimes_index\<close> below).
\<close>

definition brew :: "int \<Rightarrow> draws \<Rightarrow> int \<Rightarrow> nat \<Rightarrow> BrewRecord \<times> nat" where
  "brew now rnd daysAgo k =
     (let hourRand = rnd k;
          brewHour =
            (if hourRand < 0.4 then 6.5 + rnd (k + 1) * 2.5
             else if hourRand < 0.6 then 14 + rnd (k + 1) * 2
             else if hourRand < 0.85 then 17 + rnd (k + 1) * 2
             else brewTimes ! nat \<lfloor>rnd (k + 1) * real (length brewTimes)\<rfloor>);
          timestamp =
            of_int now - of_int (daysAgo * day) - (24 - brewHour) * of_int hour
              + of_int \<lfloor>rnd (k + 2) * 3600\<rfloor>;
          durationMs = 25000 + \<lfloor>rnd (k + 3) * 10000\<rfloor>;
          doseWeight = 17 + rnd (k + 4) * 4;
          ratio = 1.8 + rnd (k + 5) * 0.7;
          yieldWeight = doseWeight * ratio;
          peakPressure = 8.2 + rnd (k + 6) * 1.8;
          avgTemperature = 92.5 + rnd (k + 7) * 3.5;
          avgFlowRate = 1.8 + rnd (k + 8) * 1.2;
          (rating, k') =
            (if rnd (k + 9) < 0.25 then
               (if rnd (k + 10) > 0.2 then (4 + \<lfloor>rnd (k + 11) * 2\<rfloor>, k + 12)
                else (3, k + 11))
             else (0, k + 10))
      in (\<lparr>BrewRecord.timestamp = timestamp,
           durationMs = durationMs,
           yieldWeight = of_int (Math_round (yieldWeight * 10)) / 10,
           doseWeight = of_int (Math_round (doseWeight * 10)) / 10,
           peakPressure = of_int (Math_round (peakPressure * 10)) / 10,
           avgTemperature = of_int (Math_round (avgTemperature * 10)) / 10,
           avgFlowRate = of_int (Math_round (avgFlowRate * 10)) / 10,
           rating = rating,
           ratio = of_int (Math_round (ratio * 10)) / 10\<rparr>, k'))"

text \<open>\<open>for (let i = 0; i < numBrews; i++)\<close>, with the iterations still to run.\<close>

fun brewLoop :: "int \<Rightarrow> draws \<Rightarrow> int \<Rightarrow> nat \<Rightarrow> nat \<Rightarrow> BrewRecord list \<times> nat" where
  "brewLoop now rnd daysAgo 0 k = ([], k)"
| "brewLoop now rnd daysAgo (Suc n) k =
     (let (b, k1) = brew now rnd daysAgo k;
          (bs, k2) = brewLoop now rnd daysAgo n k1
      in (b # bs, k2))"

text \<open>
  The body of the outer loop. The skip test \<open>daysAgo > 0 && Math.random() < 0.05\<close>
  draws only when \<open>daysAgo > 0\<close>.
\<close>

definition brewsOfDay :: "int \<Rightarrow> timezone \<Rightarrow> draws \<Rightarrow> int \<Rightarrow> nat \<Rightarrow> BrewRecord list \<times> nat" where
  "brewsOfDay now tz rnd daysAgo k =
     (let dayOfWeek = Date_getDay tz ((now - daysAgo * day) * 1000);
          isWeekend = (dayOfWeek = 0 \<or> dayOfWeek = 6);
          isFriday = (dayOfWeek = 5);
          numBrews =
            (if daysAgo = 0 then 3 + \<lfloor>rnd k * 3\<rfloor>
             else if isWeekend then 4 + \<lfloor>rnd k * 4\<rfloor>
             else if isFriday then 3 + \<lfloor>rnd k * 3\<rfloor>
             else 2 + \<lfloor>rnd k * 4\<rfloor>)
      in if daysAgo > 0 then
           (if rnd (k + 1) < 0.05 then ([], k + 2)
            else brewLoop now rnd daysAgo (nat numBrews) (k + 2))
         else brewLoop now rnd daysAgo (nat numBrews) (k + 1))"

fun brewDays :: "int \<Rightarrow> timezone \<Rightarrow> draws \<Rightarrow> int list \<Rightarrow> nat \<Rightarrow> BrewRecord list \<times> nat" where
  "brewDays now tz rnd [] k = ([], k)"
| "brewDays now tz rnd (daysAgo # ds) k =
     (let (bs, k1) = brewsOfDay now tz rnd daysAgo k;
          (rest, k2) = brewDays now tz rnd ds k1
      in (bs @ rest, k2))"

text \<open>
  \<open>brews.sort((a, b) => b.timestamp - a.timestamp)\<close>: the stable sort of the language,
  by descending timestamp.
\<close>

definition generateBrewHistory :: "int \<Rightarrow> timezone \<Rightarrow> draws \<Rightarrow> nat \<Rightarrow> BrewRecord list \<times> nat" where
  "generateBrewHistory now tz rnd k =
     (let (brews, k1) = brewDays now tz rnd (map int [0..<21]) k
      in (sort_key (\<lambda>b. - BrewRecord.timestamp b) brews, k1))"

subsection \<open>Power history\<close>

record PowerSample =
  timestamp :: int
  avgWatts :: int
  maxWatts :: int
  kwhConsumed :: real

record usageSession =
  startHour :: real
  duration :: real
  intensity :: real

definition usageSessions :: "usageSession list" where
  "usageSessions =
     [\<lparr>startHour = 6.5, duration = 2.5, intensity = 0.8\<rparr>,
      \<lparr>startHour = 14.0, duration = 2.0, intensity = 0.5\<rparr>,
      \<lparr>startHour = 18.0, duration = 2.0, intensity = 0.6\<rparr>]"

text \<open>
  The search for the active session, stopping at the first match: the triple
  \<open>(inSession, sessionIntensity, minutesIntoSession)\<close>.
\<close>

fun findSession :: "real \<Rightarrow> usageSession list \<Rightarrow> bool \<times> real \<times> real" where
  "findSession hourOfDay [] = (False, 0, 0)"
| "findSession hourOfDay (session # rest) =
     (if hourOfDay \<ge> startHour session \<and> hourOfDay < startHour session + duration session
      then (True, intensity session, (hourOfDay - startHour session) * 60)
      else findSession hourOfDay rest)"

text \<open>
  The three variables \<open>avgWatts\<close>, \<open>maxWatts\<close> and \<open>kwhConsumed\<close> of one iteration, as
  they stand before the sample is pushed; \<open>ts\<close> is the timestamp of the sample.
\<close>

definition powerReading :: "timezone \<Rightarrow> draws \<Rightarrow> int \<Rightarrow> nat \<Rightarrow> (real \<times> real \<times> real) \<times> nat" where
  "powerReading tz rnd ts k =
     (let hourOfDay = of_int (Date_getHours tz (ts * 1000))
                        + of_int (Date_getMinutes tz (ts * 1000)) / 60;
          (inSession, sessionIntensity, minutesIntoSession) =
            findSession hourOfDay usageSessions
      in if inSession then
           (if minutesIntoSession < 20 then
              (let warmupProgress = minutesIntoSession / 20;
                   avgWatts = 1400 - warmupProgress * 400 + rnd k * 300;
                   maxWatts = 2000 - warmupProgress * 300 + rnd (k + 1) * 200
               in ((avgWatts, maxWatts, (avgWatts * 300) / 3600000), k + 2))
            else
              (let random = rnd k in
               if random < sessionIntensity then
                 (if random < sessionIntensity * 0.6 then
                    (let avgWatts = 1200 + rnd (k + 1) * 500;
                         maxWatts = 1800 + rnd (k + 2) * 400
                     in ((avgWatts, maxWatts, (avgWatts * 300) / 3600000), k + 3))
                  else
                    (let avgWatts = 250 + rnd (k + 1) * 200;
                         maxWatts = 500 + rnd (k + 2) * 250
                     in ((avgWatts, maxWatts, (avgWatts * 300) / 3600000), k + 3)))
               else
                 (let avgWatts = 100 + rnd (k + 1) * 100;
                      maxWatts = 250 + rnd (k + 2) * 150
                  in ((avgWatts, maxWatts, (avgWatts * 300) / 3600000), k + 3))))
         else if hourOfDay \<ge> 22 \<or> hourOfDay < 5 then
           ((1 + rnd k * 2, 3 + rnd (k + 1) * 3, 0.00005), k + 2)
         else
           (let random = rnd k in
            if random > 0.92 then
              (let avgWatts = 150 + rnd (k + 1) * 150;
                   maxWatts = 300 + rnd (k + 2) * 200
               in ((avgWatts, maxWatts, (avgWatts * 300) / 3600000), k + 3))
            else ((2, 5, 0.0001), k + 1)))"

definition powerSample :: "int \<Rightarrow> timezone \<Rightarrow> draws \<Rightarrow> int \<Rightarrow> nat \<Rightarrow> PowerSample \<times> nat" where
  "powerSample now tz rnd i k =
     (let intervalSeconds = 300;
          timestamp = now - i * intervalSeconds;
          ((avgWatts, maxWatts, kwhConsumed), k1) = powerReading tz rnd timestamp k
      in (\<lparr>PowerSample.timestamp = timestamp,
           avgWatts = Math_round avgWatts,
           maxWatts = Math_round maxWatts,
           kwhConsumed = of_int (Math_round (kwhConsumed * 10000)) / 10000\<rparr>, k1))"

fun powerLoop :: "int \<Rightarrow> timezone \<Rightarrow> draws \<Rightarrow> int list \<Rightarrow> nat \<Rightarrow> PowerSample list \<times> nat" where
  "powerLoop now tz rnd [] k = ([], k)"
| "powerLoop now tz rnd (i # is) k =
     (let (s, k1) = powerSample now tz rnd i k;
          (ss, k2) = powerLoop now tz rnd is k1
      in (s # ss, k2))"

text \<open>\<open>for (let i = numSamples - 1; i >= 0; i--)\<close> visits 287, 286, ..., 0.\<close>

definition generatePowerHistory :: "int \<Rightarrow> timezone \<Rightarrow> draws \<Rightarrow> nat \<Rightarrow> PowerSample list \<times> nat" where
  "generatePowerHistory now tz rnd k =
     (let numSamples = 288
      in powerLoop now tz rnd (rev (map int [0..<numSamples])) k)"

subsection \<open>Daily summaries\<close>

record DailySummary =
  date :: int
  shotCount :: int
  totalBrewTimeMs :: int
  totalKwh :: real
  onTimeMinutes :: int
  steamCycles :: int
  avgBrewTimeMs :: int

text \<open>
  The body of the loop, for the day \<open>daysAgo\<close>, in the three blocks of the source.

  First the shot count: the day type, the base count, the no-usage test and the count
  itself. The test \<open>daysAgo > 0 && Math.random() < 0.1\<close> draws only when \<open>daysAgo > 0\<close>,
  and the count draws only when the day is used. The block also hands on \<open>isWeekend\<close>,
  which the steam cycles need.
\<close>

definition dailyShotCount :: "timezone \<Rightarrow> draws \<Rightarrow> int \<Rightarrow> int \<Rightarrow> nat \<Rightarrow> (bool \<times> int) \<times> nat" where
  "dailyShotCount tz rnd midnight daysAgo k =
     (let dayOfWeek = Date_getDay tz (midnight * 1000);
          isWeekend = (dayOfWeek = 0 \<or> dayOfWeek = 6);
          isFriday = (dayOfWeek = 5);
          baseShots =
            (if isWeekend then 4 + \<lfloor>rnd k * 3\<rfloor>
             else if isFriday then 3 + \<lfloor>rnd k * 2\<rfloor>
             else 2 + \<lfloor>rnd k * 3\<rfloor>);
          (noUsage, k1) = (if daysAgo > 0 then (rnd (k + 1) < 0.1, k + 2) else (False, k + 1))
      in if noUsage then ((isWeekend, 0), k1)
         else ((isWeekend, baseShots + (if daysAgo = 0 then 2 else 0) + \<lfloor>rnd k1 * 2\<rfloor>),
               k1 + 1))"

text \<open>The summary pushed when \<open>shotCount === 0\<close>.\<close>

definition idleSummary :: "draws \<Rightarrow> int \<Rightarrow> nat \<Rightarrow> DailySummary \<times> nat" where
  "idleSummary rnd midnight k =
     (\<lparr>date = midnight,
       shotCount = 0,
       totalBrewTimeMs = 0,
       totalKwh = 0.05 + rnd k * 0.05,
       onTimeMinutes = \<lfloor>rnd (k + 1) * 20\<rfloor>,
       steamCycles = 0,
       avgBrewTimeMs = 0\<rparr>, k + 2)"

text \<open>
  The summary of a day with \<open>shots\<close> shots, the \<open>shotCount\<close> of the source. The idle
  time draws only when there are two shots or more.
\<close>

definition usedSummary :: "draws \<Rightarrow> int \<Rightarrow> bool \<Rightarrow> int \<Rightarrow> nat \<Rightarrow> DailySummary \<times> nat" where
  "usedSummary rnd midnight isWeekend shots k =
     (let shotCount = shots;
          avgBrewTimeMs = 27000 + \<lfloor>rnd k * 6000\<rfloor>;
          totalBrewTimeMs = shotCount * avgBrewTimeMs;
          baseKwh = 0.25 + rnd (k + 1) * 0.15;
          perShotKwh = 0.06 + rnd (k + 2) * 0.04;
          sessionBonus = (if shotCount > 4 then of_int (shotCount - 4) * 0.02 else 0);
          totalKwh =
            baseKwh + of_int shotCount * perShotKwh + sessionBonus + rnd (k + 3) * 0.15;
          warmupMinutes = 15 + \<lfloor>rnd (k + 4) * 10\<rfloor>;
          brewTimeMinutes = \<lceil>of_int totalBrewTimeMs / (60000 :: real)\<rceil>;
          (idleMinutes, k1) =
            (if shotCount > 1 then ((shotCount - 1) * (10 + \<lfloor>rnd (k + 5) * 10\<rfloor>), k + 6)
             else (0, k + 5));
          onTimeMinutes =
            warmupMinutes + brewTimeMinutes + idleMinutes + \<lfloor>rnd k1 * 20\<rfloor>;
          steamProbability = (if isWeekend then 0.6 else 0.3);
          steamCycles =
            (if rnd (k1 + 1) < steamProbability
             then \<lfloor>rnd (k1 + 2) * (if shotCount > 3 then 4 else 2)\<rfloor> + 1
             else \<lfloor>rnd (k1 + 2) * 2\<rfloor>)
      in (\<lparr>date = midnight,
           shotCount = shotCount,
           totalBrewTimeMs = totalBrewTimeMs,
           totalKwh = of_int (Math_round (totalKwh * 100)) / 100,
           onTimeMinutes = onTimeMinutes,
           steamCycles = steamCycles,
           avgBrewTimeMs = avgBrewTimeMs\<rparr>, k1 + 3))"

definition dailySummary :: "int \<Rightarrow> timezone \<Rightarrow> draws \<Rightarrow> int \<Rightarrow> nat \<Rightarrow> DailySummary \<times> nat" where
  "dailySummary now tz rnd daysAgo k =
     (let date = now - daysAgo * day;
          midnight = (date div day) * day;
          ((isWeekend, shotCount), k1) = dailyShotCount tz rnd midnight daysAgo k
      in if shotCount = 0 then idleSummary rnd midnight k1
         else usedSummary rnd midnight isWeekend shotCount k1)"

fun dailyLoop :: "int \<Rightarrow> timezone \<Rightarrow> draws \<Rightarrow> int list \<Rightarrow> nat \<Rightarrow> DailySummary list \<times> nat" where
  "dailyLoop now tz rnd [] k = ([], k)"
| "dailyLoop now tz rnd (daysAgo # ds) k =
     (let (s, k1) = dailySummary now tz rnd daysAgo k;
          (ss, k2) = dailyLoop now tz rnd ds k1
      in (s # ss, k2))"

definition generateDailyHistory :: "int \<Rightarrow> timezone \<Rightarrow> draws \<Rightarrow> nat \<Rightarrow> DailySummary list \<times> nat" where
  "generateDailyHistory now tz rnd k =
     (let (summaries, k1) = dailyLoop now tz rnd (map int [0..<30]) k
      in (rev summaries, k1))"

subsection \<open>Weekly chart and hourly distribution\<close>

text \<open>
  \<open>generateWeeklyData\<close> reads the clock again for today's weekday: \<open>callMs\<close> is
  \<open>Date.now()\<close> at the call, in milliseconds.
\<close>

record weeklyEntry =
  day' :: string
  shots :: int

record hourlyEntry =
  hour' :: int
  count :: int

definition days :: "string list" where
  "days = [''Mon'', ''Tue'', ''Wed'', ''Thu'', ''Fri'', ''Sat'', ''Sun'']"

definition weeklyItem :: "int \<Rightarrow> draws \<Rightarrow> string \<Rightarrow> int \<Rightarrow> nat \<Rightarrow> weeklyEntry \<times> nat" where
  "weeklyItem today rnd d index k =
     (let dayIndex = (index + 1) mod 7;
          isWeekend = (dayIndex = 6 \<or> dayIndex = 0)
      in if dayIndex = today then (\<lparr>day' = d, shots = 3\<rparr>, k)
         else
           (let baseShots = (if isWeekend then 5 else 3);
                variance = \<lfloor>rnd k * 3\<rfloor> - 1
            in (\<lparr>day' = d, shots = max 1 (baseShots + variance)\<rparr>, k + 1)))"

fun weeklyMap :: "int \<Rightarrow> draws \<Rightarrow> (string \<times> int) list \<Rightarrow> nat \<Rightarrow> weeklyEntry list \<times> nat" where
  "weeklyMap today rnd [] k = ([], k)"
| "weeklyMap today rnd ((d, index) # rest) k =
     (let (e, k1) = weeklyItem today rnd d index k;
          (es, k2) = weeklyMap today rnd rest k1
      in (e # es, k2))"

definition generateWeeklyData :: "timezone \<Rightarrow> int \<Rightarrow> draws \<Rightarrow> nat \<Rightarrow> weeklyEntry list \<times> nat" where
  "generateWeeklyData tz callMs rnd k =
     (let today = Date_getDay tz callMs
      in weeklyMap today rnd (zip days (map int [0..<length days])) k)"

definition hourPatterns :: "int \<rightharpoonup> int" where
  "hourPatterns =
     map_of [(6, 3), (7, 12), (8, 15), (9, 8), (10, 4), (11, 2), (12, 3), (13, 2),
             (14, 5), (15, 7), (16, 4), (17, 3), (18, 4), (19, 2), (20, 1)]"

definition hourlyItem :: "draws \<Rightarrow> int \<Rightarrow> nat \<Rightarrow> hourlyEntry \<times> nat" where
  "hourlyItem rnd h k =
     (let baseCount = (case hourPatterns h of None \<Rightarrow> 0 | Some c \<Rightarrow> c);
          variance = \<lfloor>rnd k * 3\<rfloor> - 1
      in (\<lparr>hour' = h, count = max 0 (baseCount + variance)\<rparr>, k + 1))"

fun hourlyLoop :: "draws \<Rightarrow> int list \<Rightarrow> nat \<Rightarrow> hourlyEntry list \<times> nat" where
  "hourlyLoop rnd [] k = ([], k)"
| "hourlyLoop rnd (h # hs) k =
     (let (e, k1) = hourlyItem rnd h k;
          (es, k2) = hourlyLoop rnd hs k1
      in (e # es, k2))"

definition generateHourlyDistribution :: "draws \<Rightarrow> nat \<Rightarrow> hourlyEntry list \<times> nat" where
  "generateHourlyDistribution rnd k = hourlyLoop rnd (map int [0..<24]) k"

subsection \<open>Statistics snapshot\<close>

record LifetimeStats =
  totalShots :: int
  totalSteamCycles :: int
  totalKwh :: real
  totalOnTimeMinutes :: int
  totalBrewTimeMs :: int
  avgBrewTimeMs :: int
  minBrewTimeMs :: int
  maxBrewTimeMs :: int
  firstShotTimestamp :: int

record PeriodStats =
  shotCount :: int
  totalBrewTimeMs :: int
  avgBrewTimeMs :: int
  minBrewTimeMs :: int
  maxBrewTimeMs :: int
  totalKwh :: real

record MaintenanceStats =
  shotsSinceBackflush :: int
  shotsSinceGroupClean :: int
  shotsSinceDescale :: int
  lastBackflushTimestamp :: int
  lastGroupCleanTimestamp :: int
  lastDescaleTimestamp :: int

record Statistics =
  lifetime :: LifetimeStats
  daily :: PeriodStats
  weekly :: PeriodStats
  monthly :: PeriodStats
  maintenance :: MaintenanceStats
  sessionShots :: int
  sessionStartTimestamp :: int
  totalShots :: int
  totalSteamCycles :: int
  totalKwh :: real
  totalOnTimeMinutes :: int
  shotsToday :: int
  kwhToday :: real
  onTimeToday :: int
  shotsSinceDescale :: int
  shotsSinceGroupClean :: int
  shotsSinceBackflush :: int
  lastDescaleTimestamp :: int
  lastGroupCleanTimestamp :: int
  lastBackflushTimestamp :: int
  avgBrewTimeMs :: int
  minBrewTimeMs :: int
  maxBrewTimeMs :: int
  dailyCount :: int
  weeklyCount :: int
  monthlyCount :: int

definition generateDemoStats :: "int \<Rightarrow> Statistics" where
  "generateDemoStats now =
     \<lparr>lifetime =
        \<lparr>LifetimeStats.totalShots = 1247,
         LifetimeStats.totalSteamCycles = 234,
         LifetimeStats.totalKwh = 89.3,
         LifetimeStats.totalOnTimeMinutes = 15420,
         LifetimeStats.totalBrewTimeMs = 35539500,
         LifetimeStats.avgBrewTimeMs = 28500,
         LifetimeStats.minBrewTimeMs = 18000,
         LifetimeStats.maxBrewTimeMs = 42000,
         firstShotTimestamp = now - 180 * day\<rparr>,
      daily =
        \<lparr>PeriodStats.shotCount = 3,
         PeriodStats.totalBrewTimeMs = 85500,
         PeriodStats.avgBrewTimeMs = 28500,
         PeriodStats.minBrewTimeMs = 26000,
         PeriodStats.maxBrewTimeMs = 31000,
         PeriodStats.totalKwh = 0.95\<rparr>,
      weekly =
        \<lparr>PeriodStats.shotCount = 28,
         PeriodStats.totalBrewTimeMs = 798000,
         PeriodStats.avgBrewTimeMs = 28500,
         PeriodStats.minBrewTimeMs = 22000,
         PeriodStats.maxBrewTimeMs = 35000,
         PeriodStats.totalKwh = 7.2\<rparr>,
      monthly =
        \<lparr>PeriodStats.shotCount = 124,
         PeriodStats.totalBrewTimeMs = 3534000,
         PeriodStats.avgBrewTimeMs = 28500,
         PeriodStats.minBrewTimeMs = 21000,
         PeriodStats.maxBrewTimeMs = 38000,
         PeriodStats.totalKwh = 28.5\<rparr>,
      maintenance =
        \<lparr>MaintenanceStats.shotsSinceBackflush = 45,
         MaintenanceStats.shotsSinceGroupClean = 12,
         MaintenanceStats.shotsSinceDescale = 145,
         MaintenanceStats.lastBackflushTimestamp = now - 7 * day,
         MaintenanceStats.lastGroupCleanTimestamp = now - 2 * day,
         MaintenanceStats.lastDescaleTimestamp = now - 30 * day\<rparr>,
      sessionShots = 3,
      sessionStartTimestamp = now - 2700,
      totalShots = 1247,
      totalSteamCycles = 234,
      totalKwh = 89.3,
      totalOnTimeMinutes = 15420,
      shotsToday = 3,
      kwhToday = 0.95,
      onTimeToday = 45,
      shotsSinceDescale = 145,
      shotsSinceGroupClean = 12,
      shotsSinceBackflush = 45,
      lastDescaleTimestamp = now - 30 * day,
      lastGroupCleanTimestamp = now - 2 * day,
      lastBackflushTimestamp = now - 7 * day,
      avgBrewTimeMs = 28500,
      minBrewTimeMs = 22000,
      maxBrewTimeMs = 35000,
      dailyCount = 3,
      weeklyCount = 28,
      monthlyCount = 124\<rparr>"

subsection \<open>The bundle handed to the views\<close>

record ExtendedStatsResponse =
  stats :: Statistics
  weekly :: "weeklyEntry list"
  hourlyDistribution :: "hourlyEntry list"
  brewHistory :: "BrewRecord list"
  powerHistory :: "PowerSample list"
  dailyHistory :: "DailySummary list"

text \<open>The fields of the object literal are evaluated in the order they are written.\<close>

definition getDemoExtendedStats ::
    "int \<Rightarrow> timezone \<Rightarrow> int \<Rightarrow> draws \<Rightarrow> nat \<Rightarrow> ExtendedStatsResponse \<times> nat" where
  "getDemoExtendedStats now tz callMs rnd k =
     (let st = generateDemoStats now;
          (w, k1) = generateWeeklyData tz callMs rnd k;
          (hr, k2) = generateHourlyDistribution rnd k1;
          (bh, k3) = generateBrewHistory now tz rnd k2;
          (ph, k4) = generatePowerHistory now tz rnd k3;
          (dh, k5) = generateDailyHistory now tz rnd k4
      in (\<lparr>stats = st,
           weekly = w,
           hourlyDistribution = hr,
           brewHistory = bh,
           powerHistory = ph,
           dailyHistory = dh\<rparr>, k5))"

section \<open>Concrete hosts and inputs\<close>

text \<open>Hosts, clocks and random sources at which the theorems below are evaluated.\<close>

definition loc_both :: location where
  "loc_both = \<lparr>pathname = ''/stats'',
       search = [(''demo'', ''true''), (''exitDemo'', ''true'')], hash = ''#top''\<rparr>"

definition h_both :: host where
  "h_both = \<lparr>window = Some loc_both, localStorage = Some [DEMO_MODE_KEY \<mapsto> ''true'']\<rparr>"







text \<open>A host without a browser: neither global is declared.\<close>

definition h_none :: host where
  "h_none = \<lparr>window = None, localStorage = None\<rparr>"

text \<open>Every draw is one half; the host keeps UTC.\<close>

definition rnd_half :: draws where
  "rnd_half k = 1 / 2"

definition utc :: timezone where
  "utc ms = 0"

text \<open>
  Every draw is one half but the thirteenth, which is zero: it is the no-usage test of
  yesterday in \<open>generateDailyHistory\<close>, so yesterday has no shots.
\<close>

definition rnd_idle :: draws where
  "rnd_idle k = (if k = 12 then 0 else 1 / 2)"

section \<open>Properties of the demo mode state\<close>

lemma URLSearchParams_get_delete_same [simp]:
  "URLSearchParams_get (URLSearchParams_delete ps name) name = None"
  by (induction ps) auto

lemma URLSearchParams_get_delete_other [simp]:
  "name' \<noteq> name \<Longrightarrow>
   URLSearchParams_get (URLSearchParams_delete ps name) name' = URLSearchParams_get ps name'"
  by (induction ps) auto

text \<open>
  Claim C1. When the location carries both \<open>demo=true\<close> and \<open>exitDemo=true\<close>, a call of
  \<open>isDemoMode\<close> returns false and leaves nothing stored under the demo key: the exit test
  runs first. The durable flag lives in \<open>localStorage\<close>, so the store is present.
\<close>

theorem isDemoMode_exit_wins:
  assumes "window h = Some loc" and "localStorage h = Some st"
    and "URLSearchParams_get (search loc) ''demo'' = Some ''true''"
    and "URLSearchParams_get (search loc) ''exitDemo'' = Some ''true''"
  shows "\<exists>h'. isDemoMode h = Inr (False, h') \<and> durableFlag h' = None"
  using assms by (simp add: isDemoMode_def disableDemoMode_def durableFlag_def)

theorem isDemoMode_exit_wins_witness:
  "window h_both = Some loc_both
   \<and> localStorage h_both = Some [DEMO_MODE_KEY \<mapsto> ''true'']
   \<and> URLSearchParams_get (search loc_both) ''demo'' = Some ''true''
   \<and> URLSearchParams_get (search loc_both) ''exitDemo'' = Some ''true''
   \<and> (\<exists>h'. isDemoMode h_both = Inr (False, h') \<and> durableFlag h' = None)"
  using isDemoMode_exit_wins [of h_both loc_both "[DEMO_MODE_KEY \<mapsto> ''true'']"]
  by (simp add: h_both_def loc_both_def)





text \<open>
  Claim C8. Without a host, \<open>isDemoMode\<close> should answer false. The code guards \<open>window\<close>
  only: with neither global declared it falls through to \<open>localStorage.getItem\<close> and
  throws, where \<open>initDemoModeFromUrl\<close> returns quietly.
\<close>

theorem isDemoMode_without_host:
  "isDemoMode h_none = Inl ReferenceError \<and> initDemoModeFromUrl h_none = Inr h_none"
  by (simp add: isDemoMode_def checkLocalStorage_def initDemoModeFromUrl_def h_none_def)

text \<open>
  Claim C9. \<open>getDemoLogs\<close> returns ten entries; each has the level \<open>info\<close>, a message and
  the source tag \<open>esp32\<close> or \<open>pico\<close>; its \<open>time\<close> renders its \<open>id\<close>, an instant within the
  five minutes before the call; and the instants increase along the list.
\<close>

theorem getDemoLogs_shape:
  "length (getDemoLogs toISOString now) = 10
   \<and> (\<forall>e \<in> set (getDemoLogs toISOString now).
         level e = ''info'' \<and> message e \<noteq> [] \<and> (source e = ''esp32'' \<or> source e = ''pico'')
         \<and> time e = toISOString (id' e)
         \<and> now - 5 * 60 * 1000 \<le> id' e \<and> id' e < now)
   \<and> sorted_wrt (<) (map id' (getDemoLogs toISOString now))"
  by (simp add: getDemoLogs_def degC_def)

theorem getDemoLogs_shape_witness:
  "getDemoLogs (\<lambda>ms. ''t'') 1700000000000 ! 0 \<in> set (getDemoLogs (\<lambda>ms. ''t'') 1700000000000)
   \<and> id' (getDemoLogs (\<lambda>ms. ''t'') 1700000000000 ! 0) = 1699999700000
   \<and> level (getDemoLogs (\<lambda>ms. ''t'') 1700000000000 ! 0) = ''info''
   \<and> length (getDemoLogs (\<lambda>ms. ''t'') 1700000000000) = 10"
  using getDemoLogs_shape [of "\<lambda>ms. ''t''" 1700000000000]
  by (simp add: getDemoLogs_def)

section \<open>Properties of the generators\<close>


lemma unit_drawsD: "unit_draws rnd \<Longrightarrow> 0 \<le> rnd j \<and> rnd j < 1"
  by (simp add: unit_draws_def)

lemma Math_round_mono: "x \<le> y \<Longrightarrow> Math_round x \<le> Math_round y"
  by (simp add: Math_round_def floor_mono)

subsection \<open>Power history\<close>

lemma findSession_minutes:
  "findSession hourOfDay ss = (True, x, m) \<Longrightarrow> 0 \<le> m"
  by (induction ss) (auto split: if_splits)

lemma powerReading_max:
  assumes "unit_draws rnd" and "powerReading tz rnd ts k = ((a, m, c), k')"
  shows "a \<le> m"
proof -
  note d = unit_drawsD [OF assms(1), of k] unit_drawsD [OF assms(1), of "k + 1"]
    unit_drawsD [OF assms(1), of "k + 2"]
  obtain ins si mi where f: "findSession
      (of_int (Date_getHours tz (ts * 1000)) + of_int (Date_getMinutes tz (ts * 1000)) / 60)
      usageSessions = (ins, si, mi)"
    by (metis prod_cases3)
  show ?thesis
  proof (cases ins)
    case True
    with f have "0 \<le> mi" by (auto dest: findSession_minutes)
    with True f d assms(2) show ?thesis
      by (auto simp: powerReading_def Let_def split: if_splits)
  next
    case False
    with f d assms(2) show ?thesis
      by (auto simp: powerReading_def Let_def split: if_splits)
  qed
qed

lemma powerSample_max:
  assumes "unit_draws rnd"
  shows "avgWatts (fst (powerSample now tz rnd i k)) \<le> maxWatts (fst (powerSample now tz rnd i k))"
proof -
  obtain a m c k' where r: "powerReading tz rnd (now - i * 300) k = ((a, m, c), k')"
    by (metis prod_cases3 surj_pair)
  with assms have "a \<le> m" using powerReading_max by blast
  with r show ?thesis
    by (simp add: powerSample_def Let_def Math_round_mono)
qed

lemma powerSample_timestamp:
  "PowerSample.timestamp (fst (powerSample now tz rnd i k)) = now - i * 300"
  by (simp add: powerSample_def Let_def split: prod.splits)

lemma powerLoop_timestamps:
  "map PowerSample.timestamp (fst (powerLoop now tz rnd is k)) = map (\<lambda>i. now - i * 300) is"
proof (induction "is" arbitrary: k)
  case Nil
  show ?case by simp
next
  case (Cons i "is")
  obtain s k1 where s: "powerSample now tz rnd i k = (s, k1)" by (cases "powerSample now tz rnd i k")
  obtain ss k2 where ss: "powerLoop now tz rnd is k1 = (ss, k2)" by (cases "powerLoop now tz rnd is k1")
  from Cons [of k1] ss have "map PowerSample.timestamp ss = map (\<lambda>i. now - i * 300) is" by simp
  moreover from s have "PowerSample.timestamp s = now - i * 300"
    using powerSample_timestamp [of now tz rnd i k] by simp
  ultimately show ?case using s ss by simp
qed

lemma powerLoop_max:
  assumes "unit_draws rnd"
  shows "\<forall>s \<in> set (fst (powerLoop now tz rnd is k)). avgWatts s \<le> maxWatts s"
proof (induction "is" arbitrary: k)
  case Nil
  show ?case by simp
next
  case (Cons i "is")
  obtain s k1 where s: "powerSample now tz rnd i k = (s, k1)" by (cases "powerSample now tz rnd i k")
  obtain ss k2 where ss: "powerLoop now tz rnd is k1 = (ss, k2)" by (cases "powerLoop now tz rnd is k1")
  from Cons [of k1] ss have "\<forall>x \<in> set ss. avgWatts x \<le> maxWatts x" by simp
  moreover from s have "avgWatts s \<le> maxWatts s"
    using powerSample_max [OF assms, of now tz i k] by simp
  ultimately show ?case using s ss by simp
qed

lemma powerHistory_timestamps:
  "map PowerSample.timestamp (fst (generatePowerHistory now tz rnd k))
     = map (\<lambda>i. now - i * 300) (rev (map int [0..<288]))"
  by (simp only: generatePowerHistory_def Let_def powerLoop_timestamps)

lemma powerHistory_length: "length (fst (generatePowerHistory now tz rnd k)) = 288"
proof -
  have "length (map PowerSample.timestamp (fst (generatePowerHistory now tz rnd k))) = 288"
    by (simp only: powerHistory_timestamps) simp
  then show ?thesis by simp
qed

lemma powerHistory_nth_timestamp:
  assumes "i < 288"
  shows "PowerSample.timestamp (fst (generatePowerHistory now tz rnd k) ! i)
           = now - (287 - int i) * 300"
proof -
  have "PowerSample.timestamp (fst (generatePowerHistory now tz rnd k) ! i)
      = map PowerSample.timestamp (fst (generatePowerHistory now tz rnd k)) ! i"
    using assms by (simp add: powerHistory_length)
  also have "\<dots> = map (\<lambda>i. now - i * 300) (rev (map int [0..<288])) ! i"
    by (simp only: powerHistory_timestamps)
  also have "\<dots> = now - (287 - int i) * 300"
    using assms by (simp add: rev_nth)
  finally show ?thesis .
qed

text \<open>
  Claim C2. For draws in \<open>[0, 1)\<close>, \<open>generatePowerHistory\<close> returns 288 samples; each
  timestamp is 300 seconds after the one before it, the last being \<open>now\<close>; and no sample
  has \<open>maxWatts\<close> below \<open>avgWatts\<close>.
\<close>

theorem generatePowerHistory_shape:
  assumes "unit_draws rnd"
  shows "length (fst (generatePowerHistory now tz rnd k)) = 288
    \<and> (\<forall>i. Suc i < 288 \<longrightarrow>
          PowerSample.timestamp (fst (generatePowerHistory now tz rnd k) ! Suc i)
            = PowerSample.timestamp (fst (generatePowerHistory now tz rnd k) ! i) + 300)
    \<and> PowerSample.timestamp (fst (generatePowerHistory now tz rnd k) ! 287) = now
    \<and> (\<forall>s \<in> set (fst (generatePowerHistory now tz rnd k)). maxWatts s \<ge> avgWatts s)"
proof (intro conjI allI impI)
  show "length (fst (generatePowerHistory now tz rnd k)) = 288"
    by (rule powerHistory_length)
next
  fix i assume "Suc i < 288"
  then show "PowerSample.timestamp (fst (generatePowerHistory now tz rnd k) ! Suc i)
            = PowerSample.timestamp (fst (generatePowerHistory now tz rnd k) ! i) + 300"
    by (simp add: powerHistory_nth_timestamp)
next
  show "PowerSample.timestamp (fst (generatePowerHistory now tz rnd k) ! 287) = now"
    by (simp add: powerHistory_nth_timestamp)
next
  show "\<forall>s \<in> set (fst (generatePowerHistory now tz rnd k)). maxWatts s \<ge> avgWatts s"
    using powerLoop_max [OF assms] by (simp only: generatePowerHistory_def Let_def)
qed


theorem generatePowerHistory_shape_witness:
  "unit_draws rnd_half
   \<and> length (fst (generatePowerHistory 1700000000 utc rnd_half 0)) = 288
   \<and> PowerSample.timestamp (fst (generatePowerHistory 1700000000 utc rnd_half 0) ! 1)
       = PowerSample.timestamp (fst (generatePowerHistory 1700000000 utc rnd_half 0) ! 0) + 300
   \<and> avgWatts (fst (generatePowerHistory 1700000000 utc rnd_half 0) ! 0)
       \<le> maxWatts (fst (generatePowerHistory 1700000000 utc rnd_half 0) ! 0)"
proof -
  have u: "unit_draws rnd_half"
    by (simp add: unit_draws_def rnd_half_def)
  note t = generatePowerHistory_shape [OF u, of 1700000000 utc 0]
  from t have "fst (generatePowerHistory 1700000000 utc rnd_half 0) ! 0
      \<in> set (fst (generatePowerHistory 1700000000 utc rnd_half 0))"
    by simp
  with t u show ?thesis by simp
qed

subsection \<open>Daily summaries\<close>

lemma midnight_div: "(now - d * 86400) div 86400 = now div 86400 - (d::int)"
proof -
  have "now - d * 86400 = now + (- d) * 86400" by simp
  then show ?thesis by (simp only: div_mult_self1 [of 86400 now "-d"])
qed

lemma midnight_eq: "(now - d * day) div day * day = (now div day - d) * day"
  by (simp add: day_def midnight_div)

lemma idleSummary_fields:
  "DailySummary.date (fst (idleSummary rnd midnight k)) = midnight"
  "DailySummary.shotCount (fst (idleSummary rnd midnight k)) = 0"
  "DailySummary.totalBrewTimeMs (fst (idleSummary rnd midnight k)) = 0"
  "DailySummary.avgBrewTimeMs (fst (idleSummary rnd midnight k)) = 0"
  by (simp_all add: idleSummary_def)

lemma usedSummary_fields:
  "DailySummary.date (fst (usedSummary rnd midnight w n k)) = midnight"
  "DailySummary.shotCount (fst (usedSummary rnd midnight w n k)) = n"
  "DailySummary.totalBrewTimeMs (fst (usedSummary rnd midnight w n k))
     = n * DailySummary.avgBrewTimeMs (fst (usedSummary rnd midnight w n k))"
  by (simp_all add: usedSummary_def Let_def split: prod.splits)

lemma dailySummary_date:
  "DailySummary.date (fst (dailySummary now tz rnd d k)) = (now div day - d) * day"
  by (simp add: dailySummary_def Let_def idleSummary_fields usedSummary_fields midnight_eq
      split: prod.splits)

lemma dailySummary_consistent:
  "(DailySummary.shotCount (fst (dailySummary now tz rnd d k)) = 0 \<longrightarrow>
      DailySummary.totalBrewTimeMs (fst (dailySummary now tz rnd d k)) = 0
      \<and> DailySummary.avgBrewTimeMs (fst (dailySummary now tz rnd d k)) = 0)
   \<and> (DailySummary.shotCount (fst (dailySummary now tz rnd d k)) \<noteq> 0 \<longrightarrow>
      DailySummary.totalBrewTimeMs (fst (dailySummary now tz rnd d k))
        = DailySummary.shotCount (fst (dailySummary now tz rnd d k))
          * DailySummary.avgBrewTimeMs (fst (dailySummary now tz rnd d k)))"
  by (simp add: dailySummary_def Let_def idleSummary_fields usedSummary_fields
      split: prod.splits)

lemma dailyLoop_dates:
  "map DailySummary.date (fst (dailyLoop now tz rnd ds k)) = map (\<lambda>d. (now div day - d) * day) ds"
proof (induction ds arbitrary: k)
  case Nil
  show ?case by simp
next
  case (Cons d ds)
  obtain s k1 where s: "dailySummary now tz rnd d k = (s, k1)"
    by (cases "dailySummary now tz rnd d k")
  obtain ss k2 where ss: "dailyLoop now tz rnd ds k1 = (ss, k2)"
    by (cases "dailyLoop now tz rnd ds k1")
  from Cons [of k1] ss have "map DailySummary.date ss = map (\<lambda>d. (now div day - d) * day) ds"
    by simp
  moreover from s have "DailySummary.date s = (now div day - d) * day"
    using dailySummary_date [of now tz rnd d k] by simp
  ultimately show ?case using s ss by simp
qed

lemma dailyLoop_consistent:
  "\<forall>s \<in> set (fst (dailyLoop now tz rnd ds k)).
     (DailySummary.shotCount s = 0 \<longrightarrow>
        DailySummary.totalBrewTimeMs s = 0 \<and> DailySummary.avgBrewTimeMs s = 0)
     \<and> (DailySummary.shotCount s \<noteq> 0 \<longrightarrow>
        DailySummary.totalBrewTimeMs s = DailySummary.shotCount s * DailySummary.avgBrewTimeMs s)"
proof (induction ds arbitrary: k)
  case Nil
  show ?case by simp
next
  case (Cons d ds)
  obtain s k1 where s: "dailySummary now tz rnd d k = (s, k1)"
    by (cases "dailySummary now tz rnd d k")
  obtain ss k2 where ss: "dailyLoop now tz rnd ds k1 = (ss, k2)"
    by (cases "dailyLoop now tz rnd ds k1")
  note h = dailySummary_consistent [of now tz rnd d k]
  from Cons [of k1] ss h s show ?case by simp
qed

lemma dailyHistory_dates:
  "map DailySummary.date (fst (generateDailyHistory now tz rnd k))
     = rev (map (\<lambda>d. (now div day - d) * day) (map int [0..<30]))"
proof -
  obtain ss k1 where ss: "dailyLoop now tz rnd (map int [0..<30]) k = (ss, k1)"
    by (cases "dailyLoop now tz rnd (map int [0..<30]) k")
  then have m: "map DailySummary.date ss
      = map (\<lambda>d. (now div day - d) * day) (map int [0..<30])"
    using dailyLoop_dates [of now tz rnd "map int [0..<30]" k] by simp
  have "map DailySummary.date (rev ss) = rev (map DailySummary.date ss)"
    by (simp add: rev_map)
  then have "map DailySummary.date (rev ss)
      = rev (map (\<lambda>d. (now div day - d) * day) (map int [0..<30]))"
    by (simp only: m)
  with ss show ?thesis
    by (simp only: generateDailyHistory_def Let_def split fst_conv)
qed

lemma dates_ascending:
  "sorted_wrt (<) (rev (map (\<lambda>d. (now div day - d) * day) (map int [0..<n])))"
proof -
  have "sorted_wrt (\<lambda>x y. (now div day - int y) * day < (now div day - int x) * day) [0..<n]"
    by (rule sorted_wrt_mono_rel [of _ "(<)"]) (simp_all add: day_def)
  then show ?thesis
    by (simp add: sorted_wrt_rev sorted_wrt_map)
qed

text \<open>
  Claim C4. \<open>generateDailyHistory\<close> returns 30 summaries. In each, a shot count of zero
  comes with a total and an average brew time of zero, and a positive shot count with a
  total brew time of exactly the shot count times the average. The dates increase along
  the list, oldest first.
\<close>

theorem generateDailyHistory_consistent:
  "length (fst (generateDailyHistory now tz rnd k)) = 30
   \<and> (\<forall>s \<in> set (fst (generateDailyHistory now tz rnd k)).
        (DailySummary.shotCount s = 0 \<longrightarrow>
           DailySummary.totalBrewTimeMs s = 0 \<and> DailySummary.avgBrewTimeMs s = 0)
        \<and> (DailySummary.shotCount s > 0 \<longrightarrow>
           DailySummary.totalBrewTimeMs s
             = DailySummary.shotCount s * DailySummary.avgBrewTimeMs s))
   \<and> sorted_wrt (<) (map DailySummary.date (fst (generateDailyHistory now tz rnd k)))"
proof (intro conjI)
  have "length (map DailySummary.date (fst (generateDailyHistory now tz rnd k))) = 30"
    by (simp only: dailyHistory_dates) simp
  then show "length (fst (generateDailyHistory now tz rnd k)) = 30" by simp
next
  obtain ss k1 where ss: "dailyLoop now tz rnd (map int [0..<30]) k = (ss, k1)"
    by (cases "dailyLoop now tz rnd (map int [0..<30]) k")
  then have "set (fst (generateDailyHistory now tz rnd k)) = set ss"
    by (simp add: generateDailyHistory_def)
  moreover note dailyLoop_consistent [of now tz rnd "map int [0..<30]" k]
  ultimately show "\<forall>s \<in> set (fst (generateDailyHistory now tz rnd k)).
        (DailySummary.shotCount s = 0 \<longrightarrow>
           DailySummary.totalBrewTimeMs s = 0 \<and> DailySummary.avgBrewTimeMs s = 0)
        \<and> (DailySummary.shotCount s > 0 \<longrightarrow>
           DailySummary.totalBrewTimeMs s
             = DailySummary.shotCount s * DailySummary.avgBrewTimeMs s)"
    using ss by auto
next
  show "sorted_wrt (<) (map DailySummary.date (fst (generateDailyHistory now tz rnd k)))"
    by (simp only: dailyHistory_dates dates_ascending)
qed

theorem generateDailyHistory_consistent_witness:
  "fst (generateDailyHistory 1700000000 utc rnd_half 0) ! 0
     \<in> set (fst (generateDailyHistory 1700000000 utc rnd_half 0))
   \<and> DailySummary.shotCount (fst (generateDailyHistory 1700000000 utc rnd_half 0) ! 0) = 4
   \<and> DailySummary.totalBrewTimeMs (fst (generateDailyHistory 1700000000 utc rnd_half 0) ! 0)
       = 4 * DailySummary.avgBrewTimeMs (fst (generateDailyHistory 1700000000 utc rnd_half 0) ! 0)
   \<and> fst (generateDailyHistory 1700000000 utc rnd_idle 0) ! 28
     \<in> set (fst (generateDailyHistory 1700000000 utc rnd_idle 0))
   \<and> DailySummary.shotCount (fst (generateDailyHistory 1700000000 utc rnd_idle 0) ! 28) = 0
   \<and> DailySummary.totalBrewTimeMs (fst (generateDailyHistory 1700000000 utc rnd_idle 0) ! 28) = 0
   \<and> length (fst (generateDailyHistory 1700000000 utc rnd_half 0)) = 30"
proof -
  note t = generateDailyHistory_consistent [of 1700000000 utc rnd_half 0]
  note u = generateDailyHistory_consistent [of 1700000000 utc rnd_idle 0]
  have c: "DailySummary.shotCount (fst (generateDailyHistory 1700000000 utc rnd_half 0) ! 0) = 4"
    by code_simp
  have d: "DailySummary.shotCount (fst (generateDailyHistory 1700000000 utc rnd_idle 0) ! 28) = 0"
    by code_simp
  from t have m: "fst (generateDailyHistory 1700000000 utc rnd_half 0) ! 0
      \<in> set (fst (generateDailyHistory 1700000000 utc rnd_half 0))"
    by simp
  from u have n: "fst (generateDailyHistory 1700000000 utc rnd_idle 0) ! 28
      \<in> set (fst (generateDailyHistory 1700000000 utc rnd_idle 0))"
    by simp
  from t m c have "DailySummary.totalBrewTimeMs (fst (generateDailyHistory 1700000000 utc rnd_half 0) ! 0)
       = 4 * DailySummary.avgBrewTimeMs (fst (generateDailyHistory 1700000000 utc rnd_half 0) ! 0)"
    by auto
  moreover from u n d
  have "DailySummary.totalBrewTimeMs (fst (generateDailyHistory 1700000000 utc rnd_idle 0) ! 28) = 0"
    by auto
  ultimately show ?thesis using t m n c d by simp
qed

subsection \<open>Energy of a power sample\<close>











subsection \<open>Brew history\<close>

lemma length_brewTimes: "length brewTimes = 19"
  by (simp add: brewTimes_def)

lemma brewTimes_index:
  assumes "0 \<le> r" and "r < 1"
  shows "nat \<lfloor>r * real (length brewTimes)\<rfloor> < length brewTimes"
proof -
  from assms have "r * 19 < 19" by simp
  then have "\<lfloor>r * 19\<rfloor> < 19" by (simp add: floor_less_iff)
  then have "nat \<lfloor>r * 19\<rfloor> < 19" by linarith
  then show ?thesis by (simp only: length_brewTimes of_nat_numeral)
qed

lemma brewTimes_range: "x \<in> set brewTimes \<Longrightarrow> 6.5 \<le> x \<and> x \<le> 19"
  by (auto simp: brewTimes_def)

lemma brewTimes_pick:
  assumes "0 \<le> r" and "r < 1"
  shows "6.5 \<le> brewTimes ! nat \<lfloor>r * real (length brewTimes)\<rfloor>
         \<and> brewTimes ! nat \<lfloor>r * real (length brewTimes)\<rfloor> \<le> 19"
  using brewTimes_range [OF nth_mem [OF brewTimes_index [OF assms]]] .

lemma brew_timestamp:
  assumes "unit_draws rnd"
  shows "of_int now - of_int (d * day) - 17.5 * 3600 \<le> BrewRecord.timestamp (fst (brew now rnd d k))
    \<and> BrewRecord.timestamp (fst (brew now rnd d k)) < of_int now - of_int (d * day) - 4 * 3600"
proof -
  define H where "H =
     (if rnd k < 0.4 then 6.5 + rnd (k + 1) * 2.5
      else if rnd k < 0.6 then 14 + rnd (k + 1) * 2
      else if rnd k < 0.85 then 17 + rnd (k + 1) * 2
      else brewTimes ! nat \<lfloor>rnd (k + 1) * real (length brewTimes)\<rfloor>)"
  define J where "J = real_of_int \<lfloor>rnd (k + 2) * 3600\<rfloor>"
  note u = unit_drawsD [OF assms, of "k + 1"] unit_drawsD [OF assms, of "k + 2"]
  have t: "BrewRecord.timestamp (fst (brew now rnd d k))
      = of_int now - of_int (d * day) - (24 - H) * 3600 + J"
    by (simp add: brew_def Let_def hour_def H_def J_def split: prod.splits)
  from u brewTimes_pick [of "rnd (k + 1)"] have h: "6.5 \<le> H \<and> H \<le> 19"
    by (auto simp: H_def)
  from u have "0 \<le> \<lfloor>rnd (k + 2) * 3600\<rfloor>" and "\<lfloor>rnd (k + 2) * 3600\<rfloor> < 3600"
    by (simp_all add: floor_less_iff)
  then have j: "0 \<le> J \<and> J < 3600"
    unfolding J_def by linarith
  from h j show ?thesis
    unfolding t by auto
qed

lemma brewLoop_members:
  "b \<in> set (fst (brewLoop now rnd d n k)) \<Longrightarrow> \<exists>j. b = fst (brew now rnd d j)"
proof (induction n arbitrary: k)
  case 0
  then show ?case by simp
next
  case (Suc n)
  obtain x k1 where x: "brew now rnd d k = (x, k1)"
    by (cases "brew now rnd d k")
  obtain xs k2 where xs: "brewLoop now rnd d n k1 = (xs, k2)"
    by (cases "brewLoop now rnd d n k1")
  from Suc.prems x xs have "b = x \<or> b \<in> set xs" by simp
  then show ?case
  proof
    assume "b = x"
    with x have "b = fst (brew now rnd d k)" by simp
    then show ?thesis by blast
  next
    assume "b \<in> set xs"
    with xs have "b \<in> set (fst (brewLoop now rnd d n k1))" by simp
    then show ?thesis by (rule Suc.IH)
  qed
qed

lemma brewLoop_length: "length (fst (brewLoop now rnd d n k)) = n"
proof (induction n arbitrary: k)
  case 0
  show ?case by simp
next
  case (Suc n)
  obtain x k1 where x: "brew now rnd d k = (x, k1)"
    by (cases "brew now rnd d k")
  obtain xs k2 where xs: "brewLoop now rnd d n k1 = (xs, k2)"
    by (cases "brewLoop now rnd d n k1")
  from Suc [of k1] xs have "length xs = n" by simp
  with x xs show ?case by simp
qed

lemma brewsOfDay_members:
  "b \<in> set (fst (brewsOfDay now tz rnd d k)) \<Longrightarrow> \<exists>j. b = fst (brew now rnd d j)"
  by (auto simp: brewsOfDay_def Let_def split: if_splits dest: brewLoop_members)

lemma brewsOfDay_today:
  assumes "unit_draws rnd"
  shows "fst (brewsOfDay now tz rnd 0 k) \<noteq> []"
proof -
  from unit_drawsD [OF assms, of k] have "0 \<le> \<lfloor>rnd k * 3\<rfloor>" by simp
  then have "0 < nat (3 + \<lfloor>rnd k * 3\<rfloor>)" by linarith
  then have "length (fst (brewLoop now rnd 0 (nat (3 + \<lfloor>rnd k * 3\<rfloor>)) (k + 1))) \<noteq> 0"
    by (simp only: brewLoop_length)
  then show ?thesis
    by (simp add: brewsOfDay_def)
qed

lemma brewDays_members:
  "b \<in> set (fst (brewDays now tz rnd ds k)) \<Longrightarrow> \<exists>d \<in> set ds. \<exists>j. b = fst (brew now rnd d j)"
proof (induction ds arbitrary: k)
  case Nil
  then show ?case by simp
next
  case (Cons d ds)
  obtain xs k1 where xs: "brewsOfDay now tz rnd d k = (xs, k1)"
    by (cases "brewsOfDay now tz rnd d k")
  obtain ys k2 where ys: "brewDays now tz rnd ds k1 = (ys, k2)"
    by (cases "brewDays now tz rnd ds k1")
  from Cons.prems xs ys have "b \<in> set xs \<or> b \<in> set ys" by simp
  then show ?case
  proof
    assume "b \<in> set xs"
    with xs have "b \<in> set (fst (brewsOfDay now tz rnd d k))" by simp
    then have "\<exists>j. b = fst (brew now rnd d j)" by (rule brewsOfDay_members)
    then show ?thesis by simp
  next
    assume "b \<in> set ys"
    with ys have "b \<in> set (fst (brewDays now tz rnd ds k1))" by simp
    then have "\<exists>d \<in> set ds. \<exists>j. b = fst (brew now rnd d j)" by (rule Cons.IH)
    then show ?thesis by auto
  qed
qed

lemma brewHistory_set:
  "set (fst (generateBrewHistory now tz rnd k))
     = set (fst (brewDays now tz rnd (map int [0..<21]) k))"
  by (simp add: generateBrewHistory_def split: prod.splits)

lemma brewHistory_members:
  assumes "b \<in> set (fst (generateBrewHistory now tz rnd k))"
  shows "\<exists>d j. 0 \<le> d \<and> d \<le> 20 \<and> b = fst (brew now rnd d j)"
proof -
  from assms have "b \<in> set (fst (brewDays now tz rnd (map int [0..<21]) k))"
    by (simp only: brewHistory_set)
  then have "\<exists>d \<in> set (map int [0..<21]). \<exists>j. b = fst (brew now rnd d j)"
    by (rule brewDays_members)
  then obtain d j where "d \<in> set (map int [0..<21])" and "b = fst (brew now rnd d j)"
    by blast
  moreover from this have "0 \<le> d \<and> d \<le> 20" by auto
  ultimately show ?thesis by blast
qed

lemma brewHistory_nonempty:
  assumes "unit_draws rnd"
  shows "fst (generateBrewHistory now tz rnd k) \<noteq> []"
proof -
  have "[0..<21] = 0 # [Suc 0..<21]"
    by (rule upt_conv_Cons) simp
  then have m: "map int [0..<21] = 0 # map int [Suc 0..<21]"
    by simp
  obtain xs k1 where xs: "brewsOfDay now tz rnd 0 k = (xs, k1)"
    by (cases "brewsOfDay now tz rnd 0 k")
  with brewsOfDay_today [OF assms, of now tz k] have "xs \<noteq> []" by simp
  with xs have "fst (brewDays now tz rnd (0 # map int [Suc 0..<21]) k) \<noteq> []"
    by (simp split: prod.splits)
  then have "set (fst (brewDays now tz rnd (map int [0..<21]) k)) \<noteq> {}"
    unfolding m by simp
  then have "set (fst (generateBrewHistory now tz rnd k)) \<noteq> {}"
    by (simp add: brewHistory_set)
  then show ?thesis by simp
qed

lemma brewHistory_sorted:
  "sorted_wrt (\<lambda>a b. BrewRecord.timestamp a \<ge> BrewRecord.timestamp b)
     (fst (generateBrewHistory now tz rnd k))"
proof -
  obtain xs k1 where xs: "brewDays now tz rnd (map int [0..<21]) k = (xs, k1)"
    by (cases "brewDays now tz rnd (map int [0..<21]) k")
  have "sorted (map (\<lambda>b. - BrewRecord.timestamp b) (sort_key (\<lambda>b. - BrewRecord.timestamp b) xs))"
    by (rule sorted_sort_key)
  then have "sorted_wrt (\<lambda>a b. BrewRecord.timestamp a \<ge> BrewRecord.timestamp b)
      (sort_key (\<lambda>b. - BrewRecord.timestamp b) xs)"
    by (simp add: sorted_map)
  with xs show ?thesis
    by (simp add: generateBrewHistory_def)
qed

text \<open>
  Claim C3. For draws in \<open>[0, 1)\<close>, \<open>generateBrewHistory\<close> returns a list that is not
  empty (today has three brews or more), every timestamp in it lies between \<open>now\<close> minus
  21 days and \<open>now\<close>, and the timestamps do not increase along the list.
\<close>

theorem generateBrewHistory_cardinality:
  assumes "unit_draws rnd"
  shows "fst (generateBrewHistory now tz rnd k) \<noteq> []
    \<and> (\<forall>b \<in> set (fst (generateBrewHistory now tz rnd k)).
          of_int now - 21 * of_int day \<le> BrewRecord.timestamp b
          \<and> BrewRecord.timestamp b \<le> of_int now)
    \<and> sorted_wrt (\<lambda>a b. BrewRecord.timestamp a \<ge> BrewRecord.timestamp b)
          (fst (generateBrewHistory now tz rnd k))"
proof (intro conjI ballI)
  show "fst (generateBrewHistory now tz rnd k) \<noteq> []"
    using assms by (rule brewHistory_nonempty)
next
  fix b assume "b \<in> set (fst (generateBrewHistory now tz rnd k))"
  then obtain d j where d: "0 \<le> d" "d \<le> 20" and b: "b = fst (brew now rnd d j)"
    using brewHistory_members by blast
  note t = brew_timestamp [OF assms, of now d j]
  from d have "0 \<le> real_of_int (d * day)" and "real_of_int (d * day) \<le> 20 * 86400"
    by (simp_all add: day_def)
  with t b show "of_int now - 21 * of_int day \<le> BrewRecord.timestamp b"
    and "BrewRecord.timestamp b \<le> of_int now"
    by (simp_all add: day_def)
next
  show "sorted_wrt (\<lambda>a b. BrewRecord.timestamp a \<ge> BrewRecord.timestamp b)
          (fst (generateBrewHistory now tz rnd k))"
    by (rule brewHistory_sorted)
qed

theorem generateBrewHistory_cardinality_witness:
  "unit_draws rnd_half
   \<and> fst (generateBrewHistory 1700000000 utc rnd_half 0) \<noteq> []
   \<and> hd (fst (generateBrewHistory 1700000000 utc rnd_half 0))
       \<in> set (fst (generateBrewHistory 1700000000 utc rnd_half 0))
   \<and> BrewRecord.timestamp (hd (fst (generateBrewHistory 1700000000 utc rnd_half 0))) \<le> 1700000000
   \<and> 1700000000 - 21 * 86400
       \<le> BrewRecord.timestamp (hd (fst (generateBrewHistory 1700000000 utc rnd_half 0)))"
proof -
  have u: "unit_draws rnd_half"
    by (simp add: unit_draws_def rnd_half_def)
  note t = generateBrewHistory_cardinality [OF u, of 1700000000 utc 0]
  from t have m: "hd (fst (generateBrewHistory 1700000000 utc rnd_half 0))
       \<in> set (fst (generateBrewHistory 1700000000 utc rnd_half 0))"
    by simp
  from t m have "BrewRecord.timestamp (hd (fst (generateBrewHistory 1700000000 utc rnd_half 0)))
        \<le> of_int 1700000000
      \<and> of_int 1700000000 - 21 * of_int day
        \<le> BrewRecord.timestamp (hd (fst (generateBrewHistory 1700000000 utc rnd_half 0)))"
    by blast
  with t u m show ?thesis by (simp add: day_def)
qed

subsection \<open>Yield of a brew\<close>







subsection \<open>Statistics snapshot\<close>

lemma getDemoExtendedStats_stats:
  "stats (fst (getDemoExtendedStats now tz callMs rnd k)) = generateDemoStats now"
  by (simp add: getDemoExtendedStats_def Let_def split: prod.splits)

text \<open>
  Claim C10, as amended. \<open>generateDemoStats\<close> draws nothing: the snapshot in the bundle
  is the same for every random source, time zone and call time, and its timestamps are
  fixed offsets from \<open>now\<close>. The legacy totals and the legacy average brew time equal the
  lifetime fields, the legacy fields of today the daily ones, the three counts the shot
  counts of the periods, and the legacy maintenance fields the maintenance ones. The
  legacy \<open>minBrewTimeMs\<close> and \<open>maxBrewTimeMs\<close> equal the weekly extrema.
\<close>

theorem generateDemoStats_fixed:
  "stats (fst (getDemoExtendedStats now tz callMs rnd k)) = generateDemoStats now
   \<and> (let s = generateDemoStats now in
        firstShotTimestamp (lifetime s) = now - 15552000
      \<and> Statistics.lastBackflushTimestamp s = now - 604800
      \<and> Statistics.lastGroupCleanTimestamp s = now - 172800
      \<and> Statistics.lastDescaleTimestamp s = now - 2592000
      \<and> sessionStartTimestamp s = now - 2700
      \<and> Statistics.totalShots s = LifetimeStats.totalShots (lifetime s)
      \<and> Statistics.totalSteamCycles s = LifetimeStats.totalSteamCycles (lifetime s)
      \<and> Statistics.totalKwh s = LifetimeStats.totalKwh (lifetime s)
      \<and> Statistics.totalOnTimeMinutes s = LifetimeStats.totalOnTimeMinutes (lifetime s)
      \<and> Statistics.avgBrewTimeMs s = LifetimeStats.avgBrewTimeMs (lifetime s)
      \<and> shotsToday s = PeriodStats.shotCount (daily s)
      \<and> kwhToday s = PeriodStats.totalKwh (daily s)
      \<and> dailyCount s = PeriodStats.shotCount (daily s)
      \<and> weeklyCount s = PeriodStats.shotCount (Statistics.weekly s)
      \<and> monthlyCount s = PeriodStats.shotCount (monthly s)
      \<and> Statistics.shotsSinceDescale s = MaintenanceStats.shotsSinceDescale (maintenance s)
      \<and> Statistics.shotsSinceGroupClean s = MaintenanceStats.shotsSinceGroupClean (maintenance s)
      \<and> Statistics.shotsSinceBackflush s = MaintenanceStats.shotsSinceBackflush (maintenance s)
      \<and> Statistics.lastDescaleTimestamp s = MaintenanceStats.lastDescaleTimestamp (maintenance s)
      \<and> Statistics.lastGroupCleanTimestamp s
            = MaintenanceStats.lastGroupCleanTimestamp (maintenance s)
      \<and> Statistics.lastBackflushTimestamp s
            = MaintenanceStats.lastBackflushTimestamp (maintenance s)
      \<and> Statistics.minBrewTimeMs s = PeriodStats.minBrewTimeMs (Statistics.weekly s)
      \<and> Statistics.maxBrewTimeMs s = PeriodStats.maxBrewTimeMs (Statistics.weekly s))"
  by (simp add: getDemoExtendedStats_stats) (simp add: generateDemoStats_def day_def)

text \<open>
  C10 as it was stated fails for the brew time extrema, read against the lifetime
  fields as the other legacy totals are: the legacy values are 22000 and 35000, the
  lifetime ones 18000 and 42000.
\<close>

theorem generateDemoStats_legacy_counterexample:
  "Statistics.minBrewTimeMs (generateDemoStats 1700000000) = 22000
   \<and> LifetimeStats.minBrewTimeMs (lifetime (generateDemoStats 1700000000)) = 18000
   \<and> Statistics.maxBrewTimeMs (generateDemoStats 1700000000) = 35000
   \<and> LifetimeStats.maxBrewTimeMs (lifetime (generateDemoStats 1700000000)) = 42000
   \<and> Statistics.minBrewTimeMs (generateDemoStats 1700000000)
       \<noteq> LifetimeStats.minBrewTimeMs (lifetime (generateDemoStats 1700000000))"
  by (simp add: generateDemoStats_def)

end
